theory Spec2Isabelle
  imports Main "HOL-Library.Word"
begin

section \<open>The browser platform\<close>

text \<open>
  The client runs against platform services that are not part of the repository: Web
  Storage (\<^verbatim>\<open>localStorage\<close>, \<^verbatim>\<open>sessionStorage\<close>), the clock (\<^verbatim>\<open>Date.now()\<close>) and, further
  below, \<^verbatim>\<open>fetch\<close> and \<^verbatim>\<open>crypto\<close>. They are modelled as data the functions receive.

  JavaScript strings are modelled as \<open>string\<close>: sequences of code units below 256.
  JavaScript numbers are modelled as \<open>int\<close>: timestamps in milliseconds and lifetimes in
  seconds are integral, and on integers of that size double arithmetic is exact.
\<close>

subsection \<open>JSON values and thrown values\<close>

datatype json =
    JNull
  | JBool bool
  | JNumber int
  | JString string
  | JArray "json list"
  | JObject "(string \<times> json) list"

text \<open>
  What a \<^verbatim>\<open>throw\<close> or a rejected promise carries. \<open>Error v\<close> is \<^verbatim>\<open>new Error(v)\<close>, kept
  with the value handed to the constructor; the others are the platform's exceptions.
\<close>

datatype js_error =
    SecurityError
  | QuotaExceededError
  | SyntaxError
  | TypeError
  | Error json

subsection \<open>Web Storage\<close>

text \<open>
  A storage area is a map from keys to values. The platform can refuse it in two ways:
  with site data blocked, reading \<^verbatim>\<open>window.localStorage\<close> raises \<^verbatim>\<open>SecurityError\<close>
  (\<open>Denied\<close>); with no room left (a private window with a zero quota, or the quota used
  up), \<^verbatim>\<open>setItem\<close> raises \<^verbatim>\<open>QuotaExceededError\<close> while reads and removals still work
  (\<open>Full\<close>).
\<close>

datatype storage_access = Working | Denied | Full

record browser =
  window_defined :: bool
  access :: storage_access
  localStorage :: "string \<rightharpoonup> string"
  sessionStorage :: "string \<rightharpoonup> string"
  now :: int

definition local_getItem :: "string \<Rightarrow> browser \<Rightarrow> js_error + string option" where
  "local_getItem k env =
     (if access env = Denied then Inl SecurityError else Inr (localStorage env k))"

definition local_setItem :: "string \<Rightarrow> string \<Rightarrow> browser \<Rightarrow> js_error + browser" where
  "local_setItem k v env =
     (case access env of
        Denied \<Rightarrow> Inl SecurityError
      | Full \<Rightarrow> Inl QuotaExceededError
      | Working \<Rightarrow> Inr (env\<lparr>localStorage := (localStorage env)(k \<mapsto> v)\<rparr>))"

definition local_removeItem :: "string \<Rightarrow> browser \<Rightarrow> js_error + browser" where
  "local_removeItem k env =
     (if access env = Denied then Inl SecurityError
      else Inr (env\<lparr>localStorage := (localStorage env)(k := None)\<rparr>))"

definition session_getItem :: "string \<Rightarrow> browser \<Rightarrow> js_error + string option" where
  "session_getItem k env =
     (if access env = Denied then Inl SecurityError else Inr (sessionStorage env k))"

definition session_setItem :: "string \<Rightarrow> string \<Rightarrow> browser \<Rightarrow> js_error + browser" where
  "session_setItem k v env =
     (case access env of
        Denied \<Rightarrow> Inl SecurityError
      | Full \<Rightarrow> Inl QuotaExceededError
      | Working \<Rightarrow> Inr (env\<lparr>sessionStorage := (sessionStorage env)(k \<mapsto> v)\<rparr>))"

definition session_removeItem :: "string \<Rightarrow> browser \<Rightarrow> js_error + browser" where
  "session_removeItem k env =
     (if access env = Denied then Inl SecurityError
      else Inr (env\<lparr>sessionStorage := (sessionStorage env)(k := None)\<rparr>))"

text \<open>Sequencing of calls that may throw: the first exception ends the function.\<close>

definition and_then :: "js_error + 'a \<Rightarrow> ('a \<Rightarrow> js_error + 'b) \<Rightarrow> js_error + 'b" where
  "and_then r f = (case r of Inl e \<Rightarrow> Inl e | Inr x \<Rightarrow> f x)"

subsection \<open>Numbers as strings: \<^verbatim>\<open>toString\<close> and \<^verbatim>\<open>parseInt\<close>\<close>

text \<open>
  \<^verbatim>\<open>Number.prototype.toString\<close> on an integer: an optional minus sign and the decimal
  digits, most significant first.
\<close>

definition digit_char :: "nat \<Rightarrow> char" where
  "digit_char d = ''0123456789'' ! d"

fun decimal :: "nat \<Rightarrow> string" where
  "decimal n = (if n < 10 then [digit_char n] else decimal (n div 10) @ [digit_char (n mod 10)])"

declare decimal.simps [simp del]

definition Number_toString :: "int \<Rightarrow> string" where
  "Number_toString n = (if n < 0 then CHR ''-'' # decimal (nat (- n)) else decimal (nat n))"

text \<open>
  \<^verbatim>\<open>parseInt(s)\<close> without a radix: leading white space is skipped, one sign is read, a
  \<^verbatim>\<open>0x\<close> or \<^verbatim>\<open>0X\<close> prefix selects radix 16, and the longest run of digits is the value.
  With no digit the result is \<^verbatim>\<open>NaN\<close>, here \<open>None\<close>.
\<close>

definition is_white_space :: "char \<Rightarrow> bool" where
  "is_white_space c \<longleftrightarrow> (of_char c :: nat) \<in> {9, 10, 11, 12, 13, 32, 160}"

definition digit_value :: "char \<Rightarrow> nat option" where
  "digit_value c =
     (let n = (of_char c :: nat) in
      if 48 \<le> n \<and> n \<le> 57 then Some (n - 48)
      else if 97 \<le> n \<and> n \<le> 122 then Some (n - 87)
      else if 65 \<le> n \<and> n \<le> 90 then Some (n - 55)
      else None)"

definition is_digit_in :: "nat \<Rightarrow> char \<Rightarrow> bool" where
  "is_digit_in radix c = (case digit_value c of None \<Rightarrow> False | Some d \<Rightarrow> d < radix)"

definition digits_value :: "nat \<Rightarrow> string \<Rightarrow> nat" where
  "digits_value radix z =
     foldl (\<lambda>acc c. acc * radix + (case digit_value c of None \<Rightarrow> 0 | Some d \<Rightarrow> d)) 0 z"

definition parseInt :: "string \<Rightarrow> int option" where
  "parseInt inputString =
     (let s = dropWhile is_white_space inputString;
          sign = (if s \<noteq> [] \<and> hd s = CHR ''-'' then - 1 else 1 :: int);
          s1 = (if s \<noteq> [] \<and> (hd s = CHR ''+'' \<or> hd s = CHR ''-'') then tl s else s);
          hex = (take 2 s1 = ''0x'' \<or> take 2 s1 = ''0X'');
          radix = (if hex then 16 else 10 :: nat);
          s2 = (if hex then drop 2 s1 else s1);
          z = takeWhile (is_digit_in radix) s2
      in if z = [] then None else Some (sign * int (digits_value radix z)))"

section \<open>\<^verbatim>\<open>src/lib/storage.ts\<close>: the token store\<close>

subsection \<open>\<^verbatim>\<open>STORAGE_KEYS\<close>\<close>

definition ACCESS_TOKEN :: string where "ACCESS_TOKEN = ''frappe_access_token''"
definition REFRESH_TOKEN :: string where "REFRESH_TOKEN = ''frappe_refresh_token''"
definition ID_TOKEN :: string where "ID_TOKEN = ''frappe_id_token''"
definition TOKEN_EXPIRY :: string where "TOKEN_EXPIRY = ''frappe_token_expiry''"
definition CODE_VERIFIER :: string where "CODE_VERIFIER = ''frappe_code_verifier''"
definition STATE :: string where "STATE = ''frappe_state''"
definition USER_INFO :: string where "USER_INFO = ''frappe_user_info''"

subsection \<open>\<^verbatim>\<open>TokenStorage\<close>\<close>

text \<open>
  Every method starts with \<^verbatim>\<open>if (typeof window === "undefined") return ...\<close> and then calls
  the storage with no \<^verbatim>\<open>try\<close> around it. An optional token (\<^verbatim>\<open>string | undefined\<close>) is a
  \<open>string option\<close>; it is truthy when it is a non-empty string.
\<close>

definition truthy_string :: "string option \<Rightarrow> bool" where
  "truthy_string v = (case v of None \<Rightarrow> False | Some s \<Rightarrow> s \<noteq> [])"

definition setTokens ::
  "string \<Rightarrow> string option \<Rightarrow> string option \<Rightarrow> int \<Rightarrow> browser \<Rightarrow> js_error + browser" where
  "setTokens accessToken refreshToken idToken expiresIn env =
     (if \<not> window_defined env then Inr env
      else
        and_then (local_setItem ACCESS_TOKEN accessToken env) (\<lambda>env1.
        and_then (case refreshToken of
                    None \<Rightarrow> Inr env1
                  | Some r \<Rightarrow> if r \<noteq> [] then local_setItem REFRESH_TOKEN r env1 else Inr env1)
          (\<lambda>env2.
        and_then (case idToken of
                    None \<Rightarrow> Inr env2
                  | Some i \<Rightarrow> if i \<noteq> [] then local_setItem ID_TOKEN i env2 else Inr env2)
          (\<lambda>env3.
        let expiryTime = now env3 + expiresIn * 1000
        in local_setItem TOKEN_EXPIRY (Number_toString expiryTime) env3))))"

definition getAccessToken :: "browser \<Rightarrow> js_error + string option" where
  "getAccessToken env =
     (if \<not> window_defined env then Inr None else local_getItem ACCESS_TOKEN env)"

definition getRefreshToken :: "browser \<Rightarrow> js_error + string option" where
  "getRefreshToken env =
     (if \<not> window_defined env then Inr None else local_getItem REFRESH_TOKEN env)"

definition getIdToken :: "browser \<Rightarrow> js_error + string option" where
  "getIdToken env =
     (if \<not> window_defined env then Inr None else local_getItem ID_TOKEN env)"

text \<open>
  \<^verbatim>\<open>Date.now() >= parseInt(expiryTime) - 60000\<close>: with \<^verbatim>\<open>NaN\<close> on the right the comparison
  is false.
\<close>

definition isTokenExpired :: "browser \<Rightarrow> js_error + bool" where
  "isTokenExpired env =
     (if \<not> window_defined env then Inr True
      else
        and_then (local_getItem TOKEN_EXPIRY env) (\<lambda>expiryTime.
          if \<not> truthy_string expiryTime then Inr True
          else
            (case expiryTime of
               None \<Rightarrow> Inr True
             | Some s \<Rightarrow>
                 Inr (case parseInt s of
                        None \<Rightarrow> False
                      | Some expiry \<Rightarrow> now env \<ge> expiry - 60000))))"

definition setCodeVerifier :: "string \<Rightarrow> browser \<Rightarrow> js_error + browser" where
  "setCodeVerifier codeVerifier env =
     (if \<not> window_defined env then Inr env
      else session_setItem CODE_VERIFIER codeVerifier env)"

definition getAndRemoveCodeVerifier :: "browser \<Rightarrow> js_error + string option \<times> browser" where
  "getAndRemoveCodeVerifier env =
     (if \<not> window_defined env then Inr (None, env)
      else
        and_then (session_getItem CODE_VERIFIER env) (\<lambda>codeVerifier.
        and_then (session_removeItem CODE_VERIFIER env) (\<lambda>env1.
        Inr (codeVerifier, env1))))"

definition setState :: "string \<Rightarrow> browser \<Rightarrow> js_error + browser" where
  "setState state env =
     (if \<not> window_defined env then Inr env
      else session_setItem STATE state env)"

definition getAndRemoveState :: "browser \<Rightarrow> js_error + string option \<times> browser" where
  "getAndRemoveState env =
     (if \<not> window_defined env then Inr (None, env)
      else
        and_then (session_getItem STATE env) (\<lambda>state.
        and_then (session_removeItem STATE env) (\<lambda>env1.
        Inr (state, env1))))"

text \<open>
  \<^verbatim>\<open>JSON.stringify\<close> and \<^verbatim>\<open>JSON.parse\<close> are the platform's; the two methods that use them
  take them as arguments. \<^verbatim>\<open>getUserInfo\<close> catches what \<^verbatim>\<open>JSON.parse\<close> throws, and only that.
\<close>

definition setUserInfo :: "(json \<Rightarrow> string) \<Rightarrow> json \<Rightarrow> browser \<Rightarrow> js_error + browser" where
  "setUserInfo JSON_stringify userInfo env =
     (if \<not> window_defined env then Inr env
      else local_setItem USER_INFO (JSON_stringify userInfo) env)"

definition getUserInfo :: "(string \<Rightarrow> js_error + json) \<Rightarrow> browser \<Rightarrow> js_error + json" where
  "getUserInfo JSON_parse env =
     (if \<not> window_defined env then Inr JNull
      else
        and_then (local_getItem USER_INFO env) (\<lambda>userInfo.
          if \<not> truthy_string userInfo then Inr JNull
          else
            (case userInfo of
               None \<Rightarrow> Inr JNull
             | Some s \<Rightarrow> (case JSON_parse s of Inl e \<Rightarrow> Inr JNull | Inr v \<Rightarrow> Inr v))))"

definition clearAll :: "browser \<Rightarrow> js_error + browser" where
  "clearAll env =
     (if \<not> window_defined env then Inr env
      else
        and_then (local_removeItem ACCESS_TOKEN env) (\<lambda>env1.
        and_then (local_removeItem REFRESH_TOKEN env1) (\<lambda>env2.
        and_then (local_removeItem ID_TOKEN env2) (\<lambda>env3.
        and_then (local_removeItem TOKEN_EXPIRY env3) (\<lambda>env4.
        and_then (local_removeItem USER_INFO env4) (\<lambda>env5.
        and_then (session_removeItem CODE_VERIFIER env5) (\<lambda>env6.
        session_removeItem STATE env6)))))))"

text \<open>\<^verbatim>\<open>!!accessToken && !this.isTokenExpired()\<close>: the right operand runs only when the left is true.\<close>

definition isAuthenticated :: "browser \<Rightarrow> js_error + bool" where
  "isAuthenticated env =
     (if \<not> window_defined env then Inr False
      else
        and_then (getAccessToken env) (\<lambda>accessToken.
          if truthy_string accessToken
          then and_then (isTokenExpired env) (\<lambda>expired. Inr (\<not> expired))
          else Inr False))"

subsection \<open>Sequences of calls\<close>

text \<open>
  The calls of \<^verbatim>\<open>TokenStorage\<close> that write, and the passing of time. \<open>perform\<close> gives the
  browser after one call; a call that throws leaves it as it was.
\<close>

datatype storage_call =
    SetTokens string "string option" "string option" int
  | SetCodeVerifier string
  | GetAndRemoveCodeVerifier
  | SetState string
  | GetAndRemoveState
  | SetUserInfo json
  | ClearAll
  | ClockReads int

definition after :: "browser \<Rightarrow> js_error + browser \<Rightarrow> browser" where
  "after env r = (case r of Inl e \<Rightarrow> env | Inr env' \<Rightarrow> env')"

fun perform :: "(json \<Rightarrow> string) \<Rightarrow> storage_call \<Rightarrow> browser \<Rightarrow> browser" where
  "perform js (SetTokens a r i e) env = after env (setTokens a r i e env)"
| "perform js (SetCodeVerifier v) env = after env (setCodeVerifier v env)"
| "perform js GetAndRemoveCodeVerifier env =
     (case getAndRemoveCodeVerifier env of Inl e \<Rightarrow> env | Inr (v, env') \<Rightarrow> env')"
| "perform js (SetState s) env = after env (setState s env)"
| "perform js GetAndRemoveState env =
     (case getAndRemoveState env of Inl e \<Rightarrow> env | Inr (v, env') \<Rightarrow> env')"
| "perform js (SetUserInfo u) env = after env (setUserInfo js u env)"
| "perform js ClearAll env = after env (clearAll env)"
| "perform js (ClockReads t) env = env\<lparr>now := t\<rparr>"

definition perform_all :: "(json \<Rightarrow> string) \<Rightarrow> storage_call list \<Rightarrow> browser \<Rightarrow> browser" where
  "perform_all js calls env = fold (perform js) calls env"

fun stashes_verifier :: "storage_call \<Rightarrow> bool" where
  "stashes_verifier (SetCodeVerifier v) = True"
| "stashes_verifier c = False"

fun stashes_state :: "storage_call \<Rightarrow> bool" where
  "stashes_state (SetState s) = True"
| "stashes_state c = False"

section \<open>More of the platform: bytes, base64, form encoding, \<^verbatim>\<open>fetch\<close>\<close>

subsection \<open>Bytes and strings\<close>

type_synonym byte = "8 word"

text \<open>\<^verbatim>\<open>String.fromCharCode.apply(null, Array.from(array))\<close>: one code unit for each byte.\<close>

definition String_fromCharCode :: "byte list \<Rightarrow> string" where
  "String_fromCharCode array = map (\<lambda>b. char_of (unat b)) array"

text \<open>
  \<^verbatim>\<open>new TextEncoder().encode(s)\<close>: the UTF-8 bytes of \<open>s\<close>. A code unit below 128 is one
  byte, one from 128 to 255 is two.
\<close>

definition utf8_of_char :: "char \<Rightarrow> byte list" where
  "utf8_of_char c =
     (let n = (of_char c :: nat) in
      if n < 128 then [of_nat n] else [of_nat (192 + n div 64), of_nat (128 + n mod 64)])"

definition TextEncoder_encode :: "string \<Rightarrow> byte list" where
  "TextEncoder_encode s = concat (map utf8_of_char s)"

text \<open>\<^verbatim>\<open>Array.prototype.join\<close> on an array of strings.\<close>

fun join :: "string \<Rightarrow> string list \<Rightarrow> string" where
  "join sep [] = []"
| "join sep [x] = x"
| "join sep (x # y # ys) = x @ sep @ join sep (y # ys)"

subsection \<open>Base 64 (RFC 4648)\<close>

text \<open>
  The input is read as one sequence of bits, most significant bit of each byte first, and
  cut into groups of six, the last one filled with zero bits on the right. Each group is
  the index of a character in the alphabet.
\<close>

definition bits_of_byte :: "byte \<Rightarrow> bool list" where
  "bits_of_byte b = map (bit b) [7, 6, 5, 4, 3, 2, 1, 0]"

definition value_of_bits :: "bool list \<Rightarrow> nat" where
  "value_of_bits bs = foldl (\<lambda>n b. 2 * n + (if b then 1 else 0)) 0 bs"

definition sextets :: "bool list \<Rightarrow> nat list" where
  "sextets bits =
     map (\<lambda>k. value_of_bits (take 6 (drop (6 * k) bits @ replicate 6 False)))
       [0 ..< (length bits + 5) div 6]"

definition base64_alphabet :: string where
  "base64_alphabet = ''ABCDEFGHIJKLMNOPQRSTUVWXYZabcdefghijklmnopqrstuvwxyz0123456789+/''"

definition base64url_alphabet :: string where
  "base64url_alphabet = ''ABCDEFGHIJKLMNOPQRSTUVWXYZabcdefghijklmnopqrstuvwxyz0123456789-_''"

text \<open>
  \<^verbatim>\<open>btoa(s)\<close>: the base 64 encoding of the bytes whose values are the code units of \<open>s\<close>,
  in the standard alphabet, padded with \<^verbatim>\<open>=\<close> to a multiple of four characters. (It
  throws on a code unit above 255, which a \<open>string\<close> does not contain.)
\<close>

definition btoa :: "string \<Rightarrow> string" where
  "btoa s =
     map (\<lambda>g. base64_alphabet ! g) (sextets (concat (map (\<lambda>c. bits_of_byte (of_char c)) s)))
     @ replicate ((3 - length s mod 3) mod 3) CHR ''=''"

text \<open>
  The encoding the specification names: ``base64url-encoded, no padding'' (RFC 4648,
  section 5, with the padding left out). This definition follows the specification's words
  and is what \<^verbatim>\<open>base64URLEncode\<close> of the source is compared with.
\<close>

definition base64url_no_padding :: "byte list \<Rightarrow> string" where
  "base64url_no_padding bytes =
     map (\<lambda>g. base64url_alphabet ! g) (sextets (concat (map bits_of_byte bytes)))"

subsection \<open>\<^verbatim>\<open>URLSearchParams\<close>\<close>

text \<open>
  A \<^verbatim>\<open>URLSearchParams\<close> is its list of name-value pairs. \<^verbatim>\<open>toString()\<close> is the
  \<^verbatim>\<open>application/x-www-form-urlencoded\<close> serializer: the UTF-8 bytes of a name or value are
  written as themselves when they are ASCII letters, digits or one of \<^verbatim>\<open>* - . _\<close>, a space
  as \<^verbatim>\<open>+\<close>, and every other byte as \<^verbatim>\<open>%\<close> and two upper-case hexadecimal digits; a pair is
  \<^verbatim>\<open>name=value\<close> and pairs are joined with \<^verbatim>\<open>&\<close>.
\<close>

definition hex_char :: "nat \<Rightarrow> char" where
  "hex_char d = ''0123456789ABCDEF'' ! d"

definition is_form_safe :: "nat \<Rightarrow> bool" where
  "is_form_safe n \<longleftrightarrow>
     (48 \<le> n \<and> n \<le> 57) \<or> (65 \<le> n \<and> n \<le> 90) \<or> (97 \<le> n \<and> n \<le> 122) \<or>
     n = 42 \<or> n = 45 \<or> n = 46 \<or> n = 95"

definition form_encode_byte :: "byte \<Rightarrow> string" where
  "form_encode_byte b =
     (let n = unat b in
      if is_form_safe n then [char_of n]
      else if n = 32 then ''+''
      else [CHR ''%'', hex_char (n div 16), hex_char (n mod 16)])"

definition form_encode :: "string \<Rightarrow> string" where
  "form_encode s = concat (map form_encode_byte (TextEncoder_encode s))"

definition URLSearchParams_toString :: "(string \<times> string) list \<Rightarrow> string" where
  "URLSearchParams_toString params =
     join ''&'' (map (\<lambda>(name, value). form_encode name @ ''='' @ form_encode value) params)"

text \<open>
  The \<^verbatim>\<open>application/x-www-form-urlencoded\<close> parser, the reader of a query string: it is not
  called by the source and serves to say which parameters a serialized string contains.
  The input is split at \<^verbatim>\<open>&\<close>, empty pieces are dropped, a piece is split at its first \<^verbatim>\<open>=\<close>,
  \<^verbatim>\<open>+\<close> becomes a space and percent escapes are decoded. Names and values are returned as
  bytes.
\<close>

fun split_on :: "char \<Rightarrow> string \<Rightarrow> string list" where
  "split_on c [] = [[]]"
| "split_on c (x # xs) =
     (if x = c then [] # split_on c xs
      else (case split_on c xs of [] \<Rightarrow> [[x]] | w # ws \<Rightarrow> (x # w) # ws))"

definition hex_value :: "char \<Rightarrow> nat option" where
  "hex_value c =
     (let n = (of_char c :: nat) in
      if 48 \<le> n \<and> n \<le> 57 then Some (n - 48)
      else if 65 \<le> n \<and> n \<le> 70 then Some (n - 55)
      else if 97 \<le> n \<and> n \<le> 102 then Some (n - 87)
      else None)"

fun percent_decode :: "string \<Rightarrow> byte list" where
  "percent_decode [] = []"
| "percent_decode (c # rest) =
     (if c = CHR ''%'' then
        (case rest of
           h # l # rest' \<Rightarrow>
             (case (hex_value h, hex_value l) of
                (Some a, Some b) \<Rightarrow> of_nat (16 * a + b) # percent_decode rest'
              | _ \<Rightarrow> of_char c # percent_decode rest)
         | _ \<Rightarrow> of_char c # percent_decode rest)
      else of_char c # percent_decode rest)"

definition form_decode :: "string \<Rightarrow> byte list" where
  "form_decode s = percent_decode (map (\<lambda>c. if c = CHR ''+'' then CHR '' '' else c) s)"

definition form_parse :: "string \<Rightarrow> (byte list \<times> byte list) list" where
  "form_parse input =
     map (\<lambda>piece. (form_decode (takeWhile (\<lambda>c. c \<noteq> CHR ''='') piece),
                    form_decode (drop 1 (dropWhile (\<lambda>c. c \<noteq> CHR ''='') piece))))
       (filter (\<lambda>piece. piece \<noteq> []) (split_on CHR ''&'' input))"

text \<open>The UTF-8 bytes of the names and values of a parameter list.\<close>

definition utf8_pairs :: "(string \<times> string) list \<Rightarrow> (byte list \<times> byte list) list" where
  "utf8_pairs params = map (\<lambda>(name, value). (TextEncoder_encode name, TextEncoder_encode value)) params"

subsection \<open>\<^verbatim>\<open>fetch\<close>\<close>

text \<open>
  A request as the source builds it, and the part of a response the source reads: the
  status (\<^verbatim>\<open>response.ok\<close> is a status from 200 to 299) and what \<^verbatim>\<open>response.json()\<close> gives,
  a value or the exception of a body that is not JSON. \<^verbatim>\<open>fetch\<close> itself is a function the
  client is given; it answers with a response or rejects.
\<close>

record request =
  url :: string
  http_method :: string
  headers :: "(string \<times> string) list"
  body :: string

record response =
  status :: nat
  json :: "js_error + json"

definition ok :: "response \<Rightarrow> bool" where
  "ok r \<longleftrightarrow> 200 \<le> status r \<and> status r \<le> 299"

subsection \<open>Property access and \<^verbatim>\<open>||\<close> on JSON values\<close>

text \<open>
  \<open>None\<close> is \<^verbatim>\<open>undefined\<close>. Reading a property of \<^verbatim>\<open>null\<close> throws; an object gives the last
  value bound to the name, any other value gives \<^verbatim>\<open>undefined\<close> for the names read here.
\<close>

definition property :: "json \<Rightarrow> string \<Rightarrow> js_error + json option" where
  "property v name =
     (case v of
        JNull \<Rightarrow> Inl TypeError
      | JObject members \<Rightarrow> Inr (map_of (rev members) name)
      | _ \<Rightarrow> Inr None)"

definition truthy :: "json option \<Rightarrow> bool" where
  "truthy v =
     (case v of
        None \<Rightarrow> False
      | Some JNull \<Rightarrow> False
      | Some (JBool b) \<Rightarrow> b
      | Some (JNumber n) \<Rightarrow> n \<noteq> 0
      | Some (JString s) \<Rightarrow> s \<noteq> []
      | Some (JArray xs) \<Rightarrow> True
      | Some (JObject members) \<Rightarrow> True)"

section \<open>\<^verbatim>\<open>src/lib/oauth.ts\<close>: the protocol client\<close>

subsection \<open>Proof-key material\<close>

text \<open>
  \<^verbatim>\<open>crypto.getRandomValues(array)\<close> overwrites every element of the array with a random
  byte. The generator is a sequence of bytes; a call uses as many as the array is long and
  leaves the rest.
\<close>

type_synonym entropy = "nat \<Rightarrow> byte"

definition getRandomValues :: "byte list \<Rightarrow> entropy \<Rightarrow> byte list \<times> entropy" where
  "getRandomValues array rng =
     (map rng [0 ..< length array], \<lambda>i. rng (length array + i))"

definition replace_all :: "char \<Rightarrow> char \<Rightarrow> string \<Rightarrow> string" where
  "replace_all c d s = map (\<lambda>x. if x = c then d else x) s"

definition strip_trailing :: "char \<Rightarrow> string \<Rightarrow> string" where
  "strip_trailing c s = rev (dropWhile (\<lambda>x. x = c) (rev s))"

definition base64URLEncode :: "byte list \<Rightarrow> string" where
  "base64URLEncode array =
     strip_trailing CHR ''=''
       (replace_all CHR ''/'' CHR ''_''
         (replace_all CHR ''+'' CHR ''-''
           (btoa (String_fromCharCode array))))"

definition generateCodeVerifier :: "entropy \<Rightarrow> string \<times> entropy" where
  "generateCodeVerifier rng =
     (let (array, rng') = getRandomValues (replicate 32 0) rng
      in (base64URLEncode array, rng'))"

text \<open>
  \<^verbatim>\<open>crypto.subtle.digest(algorithm, data)\<close> is the platform's hash; the function takes it as
  an argument and calls it with the algorithm name \<^verbatim>\<open>"SHA-256"\<close>.
\<close>

definition generateCodeChallenge :: "(string \<Rightarrow> byte list \<Rightarrow> byte list) \<Rightarrow> string \<Rightarrow> string" where
  "generateCodeChallenge digest codeVerifier =
     (let data = TextEncoder_encode codeVerifier;
          hash = digest ''SHA-256'' data
      in base64URLEncode hash)"

definition generateState :: "entropy \<Rightarrow> string \<times> entropy" where
  "generateState rng =
     (let (array, rng') = getRandomValues (replicate 16 0) rng
      in (base64URLEncode array, rng'))"

subsection \<open>\<^verbatim>\<open>getAuthorizationUrl\<close>\<close>

record authorization =
  auth_url :: string
  codeVerifier :: string
  state :: string

definition authorization_params ::
  "string \<Rightarrow> string \<Rightarrow> string list \<Rightarrow> string \<Rightarrow> string \<Rightarrow> (string \<times> string) list" where
  "authorization_params clientId redirectUri scopes codeChallenge st =
     [(''client_id'', clientId),
      (''redirect_uri'', redirectUri),
      (''response_type'', ''code''),
      (''scope'', join '' '' scopes),
      (''code_challenge'', codeChallenge),
      (''code_challenge_method'', ''S256''),
      (''state'', st)]"

text \<open>The \<open>scopes\<close> argument is optional; left out, it is \<^verbatim>\<open>["all", "openid"]\<close>.\<close>

definition getAuthorizationUrl ::
  "(string \<Rightarrow> byte list \<Rightarrow> byte list) \<Rightarrow> entropy \<Rightarrow>
   string \<Rightarrow> string \<Rightarrow> string \<Rightarrow> string list option \<Rightarrow> authorization" where
  "getAuthorizationUrl digest rng frappeServerUrl clientId redirectUri scopes_arg =
     (let scopes = (case scopes_arg of None \<Rightarrow> [''all'', ''openid''] | Some xs \<Rightarrow> xs);
          (verifier, rng1) = generateCodeVerifier rng;
          codeChallenge = generateCodeChallenge digest verifier;
          (st, rng2) = generateState rng1;
          params = authorization_params clientId redirectUri scopes codeChallenge st;
          u = frappeServerUrl @ ''/api/method/frappe.integrations.oauth2.authorize?''
                @ URLSearchParams_toString params
      in \<lparr>auth_url = u, codeVerifier = verifier, state = st\<rparr>)"

subsection \<open>\<^verbatim>\<open>exchangeCodeForToken\<close>\<close>

definition token_request_params ::
  "string \<Rightarrow> string \<Rightarrow> string \<Rightarrow> string \<Rightarrow> string \<Rightarrow> (string \<times> string) list" where
  "token_request_params clientId clientSecret code verifier redirectUri =
     [(''grant_type'', ''authorization_code''),
      (''code'', code),
      (''redirect_uri'', redirectUri),
      (''client_id'', clientId),
      (''code_verifier'', verifier)]
     @ (if clientSecret \<noteq> [] then [(''client_secret'', clientSecret)] else [])"

definition token_request ::
  "string \<Rightarrow> string \<Rightarrow> string \<Rightarrow> string \<Rightarrow> string \<Rightarrow> string \<Rightarrow> request" where
  "token_request frappeServerUrl clientId clientSecret code verifier redirectUri =
     \<lparr>url = frappeServerUrl @ ''/api/method/frappe.integrations.oauth2.get_token'',
      http_method = ''POST'',
      headers = [(''Content-Type'', ''application/x-www-form-urlencoded'')],
      body = URLSearchParams_toString
               (token_request_params clientId clientSecret code verifier redirectUri)\<rparr>"

text \<open>
  \<^verbatim>\<open>error.error_description || error.error || "Token exchange failed"\<close>: the first operand
  that is truthy, the last one otherwise; \<^verbatim>\<open>error.error\<close> is read only when the
  description is not truthy.
\<close>

definition truthy_value :: "json option \<Rightarrow> json option" where
  "truthy_value v = (if truthy v then v else None)"

definition exchange_failure :: "json \<Rightarrow> js_error" where
  "exchange_failure error =
     (case property error ''error_description'' of
        Inl e \<Rightarrow> e
      | Inr description \<Rightarrow>
          (case truthy_value description of
             Some d \<Rightarrow> Error d
           | None \<Rightarrow>
               (case property error ''error'' of
                  Inl e \<Rightarrow> e
                | Inr code \<Rightarrow>
                    (case truthy_value code of
                       Some c \<Rightarrow> Error c
                     | None \<Rightarrow> Error (JString ''Token exchange failed'')))))"

definition exchangeCodeForToken ::
  "(request \<Rightarrow> js_error + response) \<Rightarrow>
   string \<Rightarrow> string \<Rightarrow> string \<Rightarrow> string \<Rightarrow> string \<Rightarrow> string \<Rightarrow> js_error + json" where
  "exchangeCodeForToken fetch frappeServerUrl clientId clientSecret code verifier redirectUri =
     and_then
       (fetch (token_request frappeServerUrl clientId clientSecret code verifier redirectUri))
       (\<lambda>response.
          if \<not> ok response
          then and_then (json response) (\<lambda>error. Inl (exchange_failure error))
          else and_then (json response) (\<lambda>data. Inr data))"

subsection \<open>\<^verbatim>\<open>revokeToken\<close>\<close>

text \<open>
  The optional \<open>clientSecret\<close> is a \<open>string option\<close>. The function returns nothing; the
  model returns what it wrote with \<^verbatim>\<open>console.warn\<close>.
\<close>

definition revoke_request :: "string \<Rightarrow> string \<Rightarrow> string \<Rightarrow> string option \<Rightarrow> request" where
  "revoke_request frappeServerUrl token clientId clientSecret =
     \<lparr>url = frappeServerUrl @ ''/api/method/frappe.integrations.oauth2.revoke_token'',
      http_method = ''POST'',
      headers =
        [(''Content-Type'', ''application/x-www-form-urlencoded'')]
        @ (case clientSecret of
             None \<Rightarrow> []
           | Some secret \<Rightarrow>
               if secret \<noteq> []
               then [(''Authorization'', ''Basic '' @ btoa (clientId @ '':'' @ secret))]
               else []),
      body = URLSearchParams_toString
               [(''token'', token), (''token_type_hint'', ''access_token'')]\<rparr>"

definition revokeToken ::
  "(request \<Rightarrow> js_error + response) \<Rightarrow>
   string \<Rightarrow> string \<Rightarrow> string \<Rightarrow> string option \<Rightarrow> js_error + string list" where
  "revokeToken fetch frappeServerUrl token clientId clientSecret =
     and_then (fetch (revoke_request frappeServerUrl token clientId clientSecret))
       (\<lambda>response.
          if \<not> ok response \<and> status response \<noteq> 200
          then Inr [''Token revocation failed, but continuing with logout'']
          else Inr [])"

subsection \<open>What a call returns\<close>

text \<open>The value a state-changing call hands to its caller, without the browser after it.\<close>

definition returned :: "js_error + 'a \<times> browser \<Rightarrow> js_error + 'a" where
  "returned r = (case r of Inl e \<Rightarrow> Inl e | Inr (v, env') \<Rightarrow> Inr v)"

section \<open>Example browsers\<close>

text \<open>A server-side render (no \<^verbatim>\<open>window\<close>), and browser tabs in several conditions.\<close>

definition server_side :: browser where
  "server_side =
     \<lparr>window_defined = False, access = Working, localStorage = Map.empty,
      sessionStorage = Map.empty, now = 1700000000000\<rparr>"

definition fresh_browser :: browser where
  "fresh_browser =
     \<lparr>window_defined = True, access = Working, localStorage = Map.empty,
      sessionStorage = Map.empty, now = 1700000000000\<rparr>"

definition blocked_browser :: browser where
  "blocked_browser = fresh_browser\<lparr>access := Denied\<rparr>"

definition full_browser :: browser where
  "full_browser = fresh_browser\<lparr>access := Full\<rparr>"

definition callback_browser :: browser where
  "callback_browser =
     fresh_browser\<lparr>sessionStorage := [CODE_VERIFIER \<mapsto> ''verifier-1'', STATE \<mapsto> ''state-1'']\<rparr>"

definition signed_in_browser :: browser where
  "signed_in_browser =
     fresh_browser\<lparr>localStorage :=
       [ACCESS_TOKEN \<mapsto> ''access-1'', REFRESH_TOKEN \<mapsto> ''refresh-1'',
        ID_TOKEN \<mapsto> ''id-1'', TOKEN_EXPIRY \<mapsto> ''1700003600000'']\<rparr>"

section \<open>Example answers of the provider\<close>

text \<open>
  Answers of \<^verbatim>\<open>fetch\<close>, the same to every request: a grant, a refusal as RFC 6749 writes
  it, a refusal with an empty description, a page that is not JSON with status 200, and
  a server error.
\<close>

definition token_response :: json where
  "token_response =
     JObject [(''access_token'', JString ''access-1''), (''token_type'', JString ''Bearer''),
              (''expires_in'', JNumber 3600), (''scope'', JString ''all openid'')]"

definition granting_fetch :: "request \<Rightarrow> js_error + response" where
  "granting_fetch req = Inr \<lparr>status = 200, json = Inr token_response\<rparr>"





definition unavailable_fetch :: "request \<Rightarrow> js_error + response" where
  "unavailable_fetch req = Inr \<lparr>status = 503, json = Inl SyntaxError\<rparr>"

section \<open>Facts about the platform model\<close>

lemmas storage_keys =
  ACCESS_TOKEN_def REFRESH_TOKEN_def ID_TOKEN_def TOKEN_EXPIRY_def CODE_VERIFIER_def
  STATE_def USER_INFO_def

lemmas storage_ops =
  local_getItem_def local_setItem_def local_removeItem_def
  session_getItem_def session_setItem_def session_removeItem_def

lemmas token_storage_defs =
  setTokens_def setCodeVerifier_def getAndRemoveCodeVerifier_def setState_def
  getAndRemoveState_def setUserInfo_def clearAll_def

lemma perform_window: "window_defined (perform js c env) = window_defined env"
  by (cases c)
    (auto simp: token_storage_defs after_def and_then_def storage_ops Let_def
      split: sum.splits option.splits storage_access.splits if_splits)

lemma perform_access: "access (perform js c env) = access env"
  by (cases c)
    (auto simp: token_storage_defs after_def and_then_def storage_ops Let_def
      split: sum.splits option.splits storage_access.splits if_splits)

lemma perform_verifier_absent:
  "\<not> stashes_verifier c \<Longrightarrow> sessionStorage env CODE_VERIFIER = None \<Longrightarrow>
   sessionStorage (perform js c env) CODE_VERIFIER = None"
  by (cases c)
    (auto simp: token_storage_defs after_def and_then_def storage_ops storage_keys Let_def
      split: sum.splits option.splits storage_access.splits if_splits)

lemma perform_state_absent:
  "\<not> stashes_state c \<Longrightarrow> sessionStorage env STATE = None \<Longrightarrow>
   sessionStorage (perform js c env) STATE = None"
  by (cases c)
    (auto simp: token_storage_defs after_def and_then_def storage_ops storage_keys Let_def
      split: sum.splits option.splits storage_access.splits if_splits)

lemma perform_all_Cons: "perform_all js (c # cs) env = perform_all js cs (perform js c env)"
  by (simp add: perform_all_def)

lemma perform_all_window: "window_defined (perform_all js cs env) = window_defined env"
  unfolding perform_all_def by (induction cs arbitrary: env) (simp_all add: perform_window)

lemma perform_all_access: "access (perform_all js cs env) = access env"
  unfolding perform_all_def by (induction cs arbitrary: env) (simp_all add: perform_access)

lemma perform_all_verifier_absent:
  "\<forall>c \<in> set cs. \<not> stashes_verifier c \<Longrightarrow> sessionStorage env CODE_VERIFIER = None \<Longrightarrow>
   sessionStorage (perform_all js cs env) CODE_VERIFIER = None"
  unfolding perform_all_def
  by (induction cs arbitrary: env) (simp_all add: perform_verifier_absent)

lemma perform_all_state_absent:
  "\<forall>c \<in> set cs. \<not> stashes_state c \<Longrightarrow> sessionStorage env STATE = None \<Longrightarrow>
   sessionStorage (perform_all js cs env) STATE = None"
  unfolding perform_all_def
  by (induction cs arbitrary: env) (simp_all add: perform_state_absent)

lemma take_verifier:
  "window_defined env \<Longrightarrow> access env \<noteq> Denied \<Longrightarrow>
   getAndRemoveCodeVerifier env =
     Inr (sessionStorage env CODE_VERIFIER,
          env\<lparr>sessionStorage := (sessionStorage env)(CODE_VERIFIER := None)\<rparr>)"
  by (simp add: getAndRemoveCodeVerifier_def and_then_def storage_ops)

lemma take_state:
  "window_defined env \<Longrightarrow> access env \<noteq> Denied \<Longrightarrow>
   getAndRemoveState env =
     Inr (sessionStorage env STATE,
          env\<lparr>sessionStorage := (sessionStorage env)(STATE := None)\<rparr>)"
  by (simp add: getAndRemoveState_def and_then_def storage_ops)

lemma stash_verifier:
  "window_defined env \<Longrightarrow> access env = Working \<Longrightarrow>
   setCodeVerifier v env = Inr (env\<lparr>sessionStorage := (sessionStorage env)(CODE_VERIFIER \<mapsto> v)\<rparr>)"
  by (simp add: setCodeVerifier_def storage_ops)

lemma stash_state:
  "window_defined env \<Longrightarrow> access env = Working \<Longrightarrow>
   setState s env = Inr (env\<lparr>sessionStorage := (sessionStorage env)(STATE \<mapsto> s)\<rparr>)"
  by (simp add: setState_def storage_ops)

lemma taken_verifier_stays_away:
  assumes "window_defined env" and "access env \<noteq> Denied"
    and "\<forall>c \<in> set calls. \<not> stashes_verifier c"
  shows "returned (getAndRemoveCodeVerifier
           (perform_all js (GetAndRemoveCodeVerifier # calls) env)) = Inr None"
proof -
  let ?env1 = "perform js GetAndRemoveCodeVerifier env"
  let ?env2 = "perform_all js calls ?env1"
  have "sessionStorage ?env1 CODE_VERIFIER = None"
    using assms(1,2) by (simp add: take_verifier)
  then have gone: "sessionStorage ?env2 CODE_VERIFIER = None"
    using assms(3) by (rule perform_all_verifier_absent [rotated])
  have "window_defined ?env2" "access ?env2 \<noteq> Denied"
    using assms(1,2)
    by (simp_all only: perform_all_window perform_all_access perform_window perform_access
        not_False_eq_True)
  then show ?thesis
    using gone by (simp add: perform_all_Cons take_verifier returned_def)
qed

lemma taken_state_stays_away:
  assumes "window_defined env" and "access env \<noteq> Denied"
    and "\<forall>c \<in> set calls. \<not> stashes_state c"
  shows "returned (getAndRemoveState
           (perform_all js (GetAndRemoveState # calls) env)) = Inr None"
proof -
  let ?env1 = "perform js GetAndRemoveState env"
  let ?env2 = "perform_all js calls ?env1"
  have "sessionStorage ?env1 STATE = None"
    using assms(1,2) by (simp add: take_state)
  then have gone: "sessionStorage ?env2 STATE = None"
    using assms(3) by (rule perform_all_state_absent [rotated])
  have "window_defined ?env2" "access ?env2 \<noteq> Denied"
    using assms(1,2)
    by (simp_all only: perform_all_window perform_all_access perform_window perform_access
        not_False_eq_True)
  then show ?thesis
    using gone by (simp add: perform_all_Cons take_state returned_def)
qed

subsection \<open>\<^verbatim>\<open>parseInt\<close> reads back what \<^verbatim>\<open>toString\<close> wrote\<close>

lemma of_char_digit_char: "d < 10 \<Longrightarrow> (of_char (digit_char d) :: nat) = 48 + d"
proof -
  assume "d < 10"
  then have "d \<in> {0, 1, 2, 3, 4, 5, 6, 7, 8, 9}" by auto
  then show ?thesis by (auto simp: digit_char_def)
qed

lemma digit_value_digit_char: "d < 10 \<Longrightarrow> digit_value (digit_char d) = Some d"
  by (simp add: digit_value_def of_char_digit_char)

lemma decimal_chars: "c \<in> set (decimal n) \<Longrightarrow> \<exists>d<10. c = digit_char d"
proof (induction n rule: decimal.induct)
  case (1 n)
  show ?case
  proof (cases "n < 10")
    case True
    with "1.prems" show ?thesis by (auto simp: decimal.simps [of n])
  next
    case False
    with "1.prems" have "c \<in> set (decimal (n div 10)) \<or> c = digit_char (n mod 10)"
      by (auto simp: decimal.simps [of n])
    then show ?thesis
    proof
      assume "c \<in> set (decimal (n div 10))"
      with False "1.IH" show ?thesis by simp
    next
      assume "c = digit_char (n mod 10)"
      moreover have "n mod 10 < 10" by simp
      ultimately show ?thesis by blast
    qed
  qed
qed

lemma decimal_nonempty: "decimal n \<noteq> []"
  by (subst decimal.simps) simp

lemma digits_value_snoc:
  "digits_value r (z @ [c]) = digits_value r z * r + (case digit_value c of None \<Rightarrow> 0 | Some d \<Rightarrow> d)"
  by (simp add: digits_value_def)

lemma digits_value_decimal: "digits_value 10 (decimal n) = n"
proof (induction n rule: decimal.induct)
  case (1 n)
  show ?case
  proof (cases "n < 10")
    case True
    then show ?thesis
      by (simp add: decimal.simps [of n] digits_value_def digit_value_digit_char)
  next
    case False
    with "1.IH" have "digits_value 10 (decimal (n div 10)) = n div 10" by simp
    with False show ?thesis
      by (simp add: decimal.simps [of n] digits_value_snoc digit_value_digit_char)
  qed
qed

lemma takeWhile_decimal: "takeWhile (is_digit_in 10) (decimal n) = decimal n"
proof -
  have "\<forall>c \<in> set (decimal n). is_digit_in 10 c"
    using decimal_chars by (fastforce simp: is_digit_in_def digit_value_digit_char)
  then show ?thesis by (simp add: takeWhile_eq_all_conv)
qed

lemma digit_char_plain:
  "d < 10 \<Longrightarrow> \<not> is_white_space (digit_char d) \<and> digit_char d \<noteq> CHR ''+'' \<and>
     digit_char d \<noteq> CHR ''-'' \<and> digit_char d \<noteq> CHR ''x'' \<and> digit_char d \<noteq> CHR ''X''"
proof -
  assume d: "d < 10"
  then have n: "(of_char (digit_char d) :: nat) = 48 + d" by (rule of_char_digit_char)
  have "\<not> is_white_space (digit_char d)"
    using d by (auto simp: is_white_space_def n)
  moreover have "digit_char d \<noteq> c" if "(of_char c :: nat) < 48 \<or> (of_char c :: nat) > 57" for c
    using that d n by auto
  ultimately show ?thesis by simp
qed

lemma hd_decimal: "\<exists>d<10. hd (decimal n) = digit_char d"
  using decimal_chars [of "hd (decimal n)" n] decimal_nonempty [of n] by simp

lemma decimal_no_hex_prefix: "take 2 (decimal n) \<noteq> ''0x'' \<and> take 2 (decimal n) \<noteq> ''0X''"
proof -
  have "c \<notin> set (decimal n)" if "c = CHR ''x'' \<or> c = CHR ''X''" for c
  proof
    assume "c \<in> set (decimal n)"
    then obtain d where "d < 10" "c = digit_char d" using decimal_chars by blast
    with that show False using digit_char_plain [of d] by auto
  qed
  then have "CHR ''x'' \<notin> set (decimal n)" "CHR ''X'' \<notin> set (decimal n)"
    by simp_all
  moreover have "set (take 2 (decimal n)) \<subseteq> set (decimal n)" by (rule set_take_subset)
  ultimately show ?thesis by auto
qed

lemma dropWhile_decimal: "dropWhile is_white_space (decimal n) = decimal n"
proof -
  obtain d where "d < 10" "hd (decimal n) = digit_char d" using hd_decimal by blast
  then have "\<not> is_white_space (hd (decimal n))" using digit_char_plain by simp
  then show ?thesis using decimal_nonempty [of n] by (cases "decimal n") simp_all
qed

lemma parseInt_decimal: "parseInt (decimal n) = Some (int n)"
proof -
  obtain d where d: "d < 10" "hd (decimal n) = digit_char d" using hd_decimal by blast
  then have "hd (decimal n) \<noteq> CHR ''+''" "hd (decimal n) \<noteq> CHR ''-''"
    using digit_char_plain by simp_all
  then show ?thesis
    using decimal_no_hex_prefix [of n] decimal_nonempty [of n]
    by (simp add: parseInt_def dropWhile_decimal takeWhile_decimal digits_value_decimal)
qed

lemma parseInt_minus_decimal: "parseInt (CHR ''-'' # decimal n) = Some (- int n)"
proof -
  have "\<not> is_white_space CHR ''-''" by (simp add: is_white_space_def)
  then show ?thesis
    using decimal_no_hex_prefix [of n] decimal_nonempty [of n]
    by (simp add: parseInt_def takeWhile_decimal digits_value_decimal)
qed

lemma parseInt_Number_toString: "parseInt (Number_toString n) = Some n"
  by (simp add: Number_toString_def parseInt_decimal parseInt_minus_decimal)

lemma Number_toString_nonempty: "Number_toString n \<noteq> []"
  by (simp add: Number_toString_def decimal_nonempty)

section \<open>The token store\<close>

text \<open>
  C1. With a window and a storage that can be read, taking the code verifier (the state)
  returns what is stored under its key; after that take, and after any further calls of
  the token store among which none stashes a verifier (a state), the next take returns
  nothing. A value stashed later is what the take after it returns.
\<close>

theorem pkce_attempt_single_use:
  assumes "window_defined env" and "access env \<noteq> Denied"
  shows "returned (getAndRemoveCodeVerifier env) = Inr (sessionStorage env CODE_VERIFIER) \<and>
         returned (getAndRemoveState env) = Inr (sessionStorage env STATE) \<and>
         (\<forall>calls. (\<forall>c \<in> set calls. \<not> stashes_verifier c) \<longrightarrow>
            returned (getAndRemoveCodeVerifier
              (perform_all js (GetAndRemoveCodeVerifier # calls) env)) = Inr None) \<and>
         (\<forall>calls. (\<forall>c \<in> set calls. \<not> stashes_state c) \<longrightarrow>
            returned (getAndRemoveState
              (perform_all js (GetAndRemoveState # calls) env)) = Inr None) \<and>
         (access env = Working \<longrightarrow>
            returned (getAndRemoveCodeVerifier
              (perform_all js [GetAndRemoveCodeVerifier, SetCodeVerifier v] env)) = Inr (Some v) \<and>
            returned (getAndRemoveState
              (perform_all js [GetAndRemoveState, SetState s] env)) = Inr (Some s))"
proof -
  have "returned (getAndRemoveCodeVerifier env) = Inr (sessionStorage env CODE_VERIFIER)"
    using assms by (simp add: take_verifier returned_def)
  moreover have "returned (getAndRemoveState env) = Inr (sessionStorage env STATE)"
    using assms by (simp add: take_state returned_def)
  moreover have "returned (getAndRemoveCodeVerifier
      (perform_all js [GetAndRemoveCodeVerifier, SetCodeVerifier v] env)) = Inr (Some v)"
    if "access env = Working"
    using assms that
    by (simp add: perform_all_def take_verifier stash_verifier after_def returned_def)
  moreover have "returned (getAndRemoveState
      (perform_all js [GetAndRemoveState, SetState s] env)) = Inr (Some s)"
    if "access env = Working"
    using assms that
    by (simp add: perform_all_def take_state stash_state after_def returned_def)
  ultimately show ?thesis
    using assms taken_verifier_stays_away taken_state_stays_away by blast
qed

theorem pkce_attempt_single_use_witness:
  "window_defined callback_browser \<and> access callback_browser \<noteq> Denied \<and>
   returned (getAndRemoveCodeVerifier callback_browser) = Inr (Some ''verifier-1'') \<and>
   returned (getAndRemoveState callback_browser) = Inr (Some ''state-1'') \<and>
   returned (getAndRemoveCodeVerifier (perform_all (\<lambda>u. ''null'')
     [GetAndRemoveCodeVerifier, SetState ''state-2'', SetTokens ''a'' None None 3600, ClearAll]
     callback_browser)) = Inr None \<and>
   returned (getAndRemoveState (perform_all (\<lambda>u. ''null'')
     [GetAndRemoveState, SetCodeVerifier ''verifier-2'', GetAndRemoveCodeVerifier]
     callback_browser)) = Inr None \<and>
   returned (getAndRemoveCodeVerifier (perform_all (\<lambda>u. ''null'')
     [GetAndRemoveCodeVerifier, SetCodeVerifier ''verifier-2''] callback_browser))
     = Inr (Some ''verifier-2'')"
  using pkce_attempt_single_use [of callback_browser "\<lambda>u. ''null''" "''verifier-2''" "''state-2''"]
  by (simp add: callback_browser_def fresh_browser_def storage_keys)

lemma isTokenExpired_stored:
  "window_defined env \<Longrightarrow> access env \<noteq> Denied \<Longrightarrow>
   localStorage env TOKEN_EXPIRY = Some (Number_toString expiresAt) \<Longrightarrow>
   isTokenExpired env = Inr (now env \<ge> expiresAt - 60000)"
  by (simp add: isTokenExpired_def and_then_def local_getItem_def truthy_string_def
      Number_toString_nonempty parseInt_Number_toString)

lemma isTokenExpired_absent:
  "window_defined env \<Longrightarrow> access env \<noteq> Denied \<Longrightarrow>
   localStorage env TOKEN_EXPIRY = None \<Longrightarrow> isTokenExpired env = Inr True"
  by (simp add: isTokenExpired_def and_then_def local_getItem_def truthy_string_def)

lemma setTokens_working:
  "window_defined env \<Longrightarrow> access env = Working \<Longrightarrow>
   setTokens a r i e env = Inr (env\<lparr>localStorage :=
      ((localStorage env)(ACCESS_TOKEN \<mapsto> a) ++
        (if truthy_string r then [REFRESH_TOKEN \<mapsto> the r] else Map.empty) ++
        (if truthy_string i then [ID_TOKEN \<mapsto> the i] else Map.empty))
        (TOKEN_EXPIRY \<mapsto> Number_toString (now env + e * 1000))\<rparr>)"
  by (auto simp: setTokens_def and_then_def storage_ops truthy_string_def Let_def
      split: option.splits)

lemma setTokens_frame:
  "k \<noteq> ACCESS_TOKEN \<Longrightarrow> k \<noteq> TOKEN_EXPIRY \<Longrightarrow>
   (k = REFRESH_TOKEN \<longrightarrow> \<not> truthy_string r) \<Longrightarrow>
   (k = ID_TOKEN \<longrightarrow> \<not> truthy_string i) \<Longrightarrow>
   localStorage (after env (setTokens a r i e env)) k = localStorage env k"
  by (auto simp: setTokens_def after_def and_then_def storage_ops truthy_string_def Let_def
      split: sum.splits option.splits storage_access.splits if_splits)

text \<open>
  C2. With a window and a storage that can be read: when no expiry is stored the token
  counts as expired; when the stored expiry is the timestamp \<open>expiresAt\<close>, written as
  \<^verbatim>\<open>toString\<close> writes it, the token counts as expired exactly when the clock reads
  \<open>expiresAt - 60000\<close> milliseconds or more. At \<open>expiresAt - 60000\<close> itself the answer is
  true, before it the answer is false.
\<close>

theorem isTokenExpired_grace_window:
  assumes "window_defined env" and "access env \<noteq> Denied"
  shows "(localStorage env TOKEN_EXPIRY = None \<longrightarrow> isTokenExpired env = Inr True) \<and>
         (localStorage env TOKEN_EXPIRY = Some (Number_toString expiresAt) \<longrightarrow>
            isTokenExpired env = Inr (now env \<ge> expiresAt - 60000) \<and>
            (now env = expiresAt - 60000 \<longrightarrow> isTokenExpired env = Inr True) \<and>
            (now env < expiresAt - 60000 \<longrightarrow> isTokenExpired env = Inr False))"
  using assms isTokenExpired_absent [of env] isTokenExpired_stored [of env expiresAt]
  by auto

lemma signed_in_expiry: "Number_toString 1700003600000 = ''1700003600000''"
  by (simp add: Number_toString_def decimal.simps digit_char_def)

theorem isTokenExpired_grace_window_witness:
  "window_defined fresh_browser \<and> access fresh_browser \<noteq> Denied \<and>
   localStorage fresh_browser TOKEN_EXPIRY = None \<and>
   isTokenExpired fresh_browser = Inr True \<and>
   localStorage (signed_in_browser\<lparr>now := 1700003540000\<rparr>) TOKEN_EXPIRY
     = Some (Number_toString 1700003600000) \<and>
   isTokenExpired (signed_in_browser\<lparr>now := 1700003540000\<rparr>) = Inr True \<and>
   isTokenExpired (signed_in_browser\<lparr>now := 1700003539999\<rparr>) = Inr False"
  using isTokenExpired_grace_window [of fresh_browser 0]
    isTokenExpired_grace_window [of "signed_in_browser\<lparr>now := 1700003540000\<rparr>" 1700003600000]
    isTokenExpired_grace_window [of "signed_in_browser\<lparr>now := 1700003539999\<rparr>" 1700003600000]
  by (simp add: signed_in_browser_def fresh_browser_def storage_keys signed_in_expiry)



text \<open>
  C10. \<open>setTokens\<close> writes the refresh token (the ID token) only when the new value is a
  non-empty string. Called with the refresh token (the ID token) absent or empty, it
  leaves what is stored under that key as it was, whatever was stored and whether or not
  the call succeeds; with a window and a working storage, a non-empty value replaces the
  stored one.
\<close>

theorem setTokens_keeps_absent_tokens:
  "(\<not> truthy_string refreshToken \<longrightarrow>
      localStorage (after env (setTokens accessToken refreshToken idToken expiresIn env))
        REFRESH_TOKEN = localStorage env REFRESH_TOKEN) \<and>
   (\<not> truthy_string idToken \<longrightarrow>
      localStorage (after env (setTokens accessToken refreshToken idToken expiresIn env))
        ID_TOKEN = localStorage env ID_TOKEN) \<and>
   (window_defined env \<and> access env = Working \<and> truthy_string refreshToken \<longrightarrow>
      localStorage (after env (setTokens accessToken refreshToken idToken expiresIn env))
        REFRESH_TOKEN = refreshToken) \<and>
   (window_defined env \<and> access env = Working \<and> truthy_string idToken \<longrightarrow>
      localStorage (after env (setTokens accessToken refreshToken idToken expiresIn env))
        ID_TOKEN = idToken)"
proof -
  have "localStorage (after env (setTokens accessToken refreshToken idToken expiresIn env))
      REFRESH_TOKEN = localStorage env REFRESH_TOKEN" if "\<not> truthy_string refreshToken"
    using that by (intro setTokens_frame) (simp_all add: storage_keys)
  moreover have "localStorage (after env (setTokens accessToken refreshToken idToken expiresIn env))
      ID_TOKEN = localStorage env ID_TOKEN" if "\<not> truthy_string idToken"
    using that by (intro setTokens_frame) (simp_all add: storage_keys)
  moreover have "localStorage (after env (setTokens accessToken refreshToken idToken expiresIn env))
      REFRESH_TOKEN = refreshToken"
    if "window_defined env \<and> access env = Working \<and> truthy_string refreshToken"
    using that
    by (auto simp: setTokens_working after_def storage_keys truthy_string_def map_add_def
        split: option.splits)
  moreover have "localStorage (after env (setTokens accessToken refreshToken idToken expiresIn env))
      ID_TOKEN = idToken"
    if "window_defined env \<and> access env = Working \<and> truthy_string idToken"
    using that
    by (auto simp: setTokens_working after_def storage_keys truthy_string_def map_add_def
        split: option.splits)
  ultimately show ?thesis by blast
qed

theorem setTokens_keeps_absent_tokens_witness:
  "\<not> truthy_string None \<and> \<not> truthy_string (Some []) \<and>
   localStorage (after signed_in_browser (setTokens ''access-2'' None (Some []) 3600 signed_in_browser))
     REFRESH_TOKEN = Some ''refresh-1'' \<and>
   localStorage (after signed_in_browser (setTokens ''access-2'' None (Some []) 3600 signed_in_browser))
     ID_TOKEN = Some ''id-1'' \<and>
   window_defined signed_in_browser \<and> access signed_in_browser = Working \<and>
   truthy_string (Some ''refresh-2'') \<and>
   localStorage (after signed_in_browser
       (setTokens ''access-2'' (Some ''refresh-2'') (Some ''id-2'') 3600 signed_in_browser))
     REFRESH_TOKEN = Some ''refresh-2'' \<and>
   localStorage (after signed_in_browser
       (setTokens ''access-2'' (Some ''refresh-2'') (Some ''id-2'') 3600 signed_in_browser))
     ID_TOKEN = Some ''id-2''"
  using setTokens_keeps_absent_tokens [of None signed_in_browser "''access-2''" "Some []" 3600]
    setTokens_keeps_absent_tokens
      [of "Some ''refresh-2''" signed_in_browser "''access-2''" "Some ''id-2''" 3600]
  by (simp add: signed_in_browser_def fresh_browser_def truthy_string_def storage_keys)

text \<open>
  C9, as amended. Where there is no \<^verbatim>\<open>window\<close> (a render on the server), every read of the
  token store returns nothing, the token counts as expired, the user counts as not
  authenticated, and every write returns normally and leaves the storage as it was.
\<close>

theorem no_window_degrades:
  assumes "\<not> window_defined env"
  shows "getAccessToken env = Inr None \<and> getRefreshToken env = Inr None \<and>
         getIdToken env = Inr None \<and> getUserInfo JSON_parse env = Inr JNull \<and>
         getAndRemoveCodeVerifier env = Inr (None, env) \<and>
         getAndRemoveState env = Inr (None, env) \<and>
         isTokenExpired env = Inr True \<and> isAuthenticated env = Inr False \<and>
         setTokens accessToken refreshToken idToken expiresIn env = Inr env \<and>
         setCodeVerifier v env = Inr env \<and> setState s env = Inr env \<and>
         setUserInfo JSON_stringify userInfo env = Inr env \<and> clearAll env = Inr env"
  using assms
  by (simp add: getAccessToken_def getRefreshToken_def getIdToken_def getUserInfo_def
      getAndRemoveCodeVerifier_def getAndRemoveState_def isTokenExpired_def
      isAuthenticated_def setTokens_def setCodeVerifier_def setState_def setUserInfo_def
      clearAll_def)

theorem no_window_degrades_witness:
  "\<not> window_defined server_side \<and>
   getAccessToken server_side = Inr None \<and>
   isTokenExpired server_side = Inr True \<and> isAuthenticated server_side = Inr False \<and>
   setTokens ''access-1'' (Some ''refresh-1'') None 3600 server_side = Inr server_side \<and>
   setCodeVerifier ''verifier-1'' server_side = Inr server_side"
  using no_window_degrades
    [of server_side "\<lambda>s. Inl SyntaxError" "''access-1''" "Some ''refresh-1''" None 3600 "''verifier-1''"]
  by (simp add: server_side_def)

text \<open>
  C9 as stated fails where a window exists and the storage is refused: with access denied
  a read throws instead of returning nothing, and with the storage full a write throws
  into its caller while a read still returns what is stored.
\<close>

theorem storage_refused_counterexample:
  "window_defined blocked_browser \<and> access blocked_browser = Denied \<and>
   window_defined full_browser \<and> access full_browser = Full \<and>
   getAccessToken blocked_browser = Inl SecurityError \<and>
   isTokenExpired blocked_browser = Inl SecurityError \<and>
   isAuthenticated blocked_browser = Inl SecurityError \<and>
   returned (getAndRemoveCodeVerifier blocked_browser) = Inl SecurityError \<and>
   setCodeVerifier ''verifier-1'' blocked_browser = Inl SecurityError \<and>
   setTokens ''access-1'' None None 3600 full_browser = Inl QuotaExceededError \<and>
   setCodeVerifier ''verifier-1'' full_browser = Inl QuotaExceededError"
  by (simp add: blocked_browser_def full_browser_def fresh_browser_def getAccessToken_def
      isTokenExpired_def isAuthenticated_def getAndRemoveCodeVerifier_def setCodeVerifier_def
      setTokens_def and_then_def storage_ops returned_def)

section \<open>Proof-key material\<close>

subsection \<open>The source's encoder is base64url without padding\<close>

lemma length_sextets: "length (sextets bits) = (length bits + 5) div 6"
  by (simp add: sextets_def)

lemma length_bits_of_bytes: "length (concat (map bits_of_byte bytes)) = 8 * length bytes"
  by (induction bytes) (simp_all add: bits_of_byte_def)

lemma value_of_bits_snoc:
  "value_of_bits (bs @ [b]) = 2 * value_of_bits bs + (if b then 1 else 0)"
  by (simp add: value_of_bits_def)

lemma value_of_bits_bound: "value_of_bits bs < 2 ^ length bs"
proof (induction bs rule: rev_induct)
  case Nil
  show ?case by (simp add: value_of_bits_def)
next
  case (snoc b bs)
  then show ?case by (simp add: value_of_bits_snoc)
qed

lemma sextets_bound: "g \<in> set (sextets bits) \<Longrightarrow> g < 64"
proof -
  assume "g \<in> set (sextets bits)"
  then obtain k where g: "g = value_of_bits (take 6 (drop (6 * k) bits @ replicate 6 False))"
    unfolding sextets_def set_map by blast
  have "length (take 6 (drop (6 * k) bits @ replicate 6 False)) = 6" by simp
  then have "value_of_bits (take 6 (drop (6 * k) bits @ replicate 6 False)) < 2 ^ 6"
    using value_of_bits_bound [of "take 6 (drop (6 * k) bits @ replicate 6 False)"]
    by (simp only:)
  with g show ?thesis by simp
qed

lemma alphabets_agree:
  "replace_all CHR ''/'' CHR ''_'' (replace_all CHR ''+'' CHR ''-'' base64_alphabet)
     = base64url_alphabet"
  by (simp add: replace_all_def base64_alphabet_def base64url_alphabet_def)

lemma length_alphabets: "length base64_alphabet = 64" "length base64url_alphabet = 64"
  by (simp_all add: base64_alphabet_def base64url_alphabet_def)

lemma replace_nth_alphabet:
  assumes "g < 64"
  shows "(if (if base64_alphabet ! g = CHR ''+'' then CHR ''-'' else base64_alphabet ! g) = CHR ''/''
          then CHR ''_''
          else (if base64_alphabet ! g = CHR ''+'' then CHR ''-'' else base64_alphabet ! g))
         = base64url_alphabet ! g"
proof -
  have "replace_all CHR ''/'' CHR ''_'' (replace_all CHR ''+'' CHR ''-'' base64_alphabet) ! g
      = base64url_alphabet ! g"
    by (simp only: alphabets_agree)
  then show ?thesis
    using assms by (simp add: replace_all_def length_alphabets)
qed

lemma replace_data:
  assumes "\<forall>g \<in> set gs. g < 64"
  shows "replace_all CHR ''/'' CHR ''_''
           (replace_all CHR ''+'' CHR ''-'' (map (\<lambda>g. base64_alphabet ! g) gs))
         = map (\<lambda>g. base64url_alphabet ! g) gs"
  using assms
  by (induction gs) (simp_all add: replace_all_def replace_nth_alphabet)

lemma replace_all_append: "replace_all c d (xs @ ys) = replace_all c d xs @ replace_all c d ys"
  by (simp add: replace_all_def)

lemma replace_all_padding:
  "c \<noteq> CHR ''='' \<Longrightarrow> replace_all c d (replicate k CHR ''='') = replicate k CHR ''=''"
  by (simp add: replace_all_def)

lemma url_alphabet_no_padding_char: "CHR ''='' \<notin> set base64url_alphabet"
  by (simp add: base64url_alphabet_def)

lemma url_data_no_padding_char:
  assumes "\<forall>g \<in> set gs. g < 64"
  shows "CHR ''='' \<notin> set (map (\<lambda>g. base64url_alphabet ! g) gs)"
proof
  assume "CHR ''='' \<in> set (map (\<lambda>g. base64url_alphabet ! g) gs)"
  then obtain g where "g \<in> set gs" "base64url_alphabet ! g = CHR ''=''" by auto
  with assms have "CHR ''='' \<in> set base64url_alphabet"
    by (metis length_alphabets(2) nth_mem)
  then show False by (simp add: url_alphabet_no_padding_char)
qed

lemma strip_trailing_padding:
  assumes "c \<notin> set xs"
  shows "strip_trailing c (xs @ replicate k c) = xs"
proof -
  have "dropWhile (\<lambda>x. x = c) (replicate k c @ rev xs) = dropWhile (\<lambda>x. x = c) (rev xs)"
    by (induction k) simp_all
  also have "\<dots> = rev xs"
    using assms by (cases "rev xs") auto
  finally show ?thesis by (simp add: strip_trailing_def)
qed

lemma byte_of_char_of: "(of_char (char_of (unat (b :: byte))) :: byte) = b"
proof -
  have small: "unat b < 256" using unsigned_less [of b, where ?'a = nat] by simp
  have "(of_char (char_of (unat b)) :: byte) = of_nat (of_char (char_of (unat b)) :: nat)"
    by (simp only: of_nat_of_char)
  also have "\<dots> = of_nat (unat b mod 256)" by simp
  also have "\<dots> = b" using small by simp
  finally show ?thesis .
qed

lemma bits_of_fromCharCode:
  "map (\<lambda>c. bits_of_byte (of_char c)) (String_fromCharCode array) = map bits_of_byte array"
  by (simp add: String_fromCharCode_def byte_of_char_of)

lemma length_fromCharCode: "length (String_fromCharCode array) = length array"
  by (simp add: String_fromCharCode_def)

lemma base64URLEncode_eq: "base64URLEncode array = base64url_no_padding array"
proof -
  let ?gs = "sextets (concat (map bits_of_byte array))"
  have small: "\<forall>g \<in> set ?gs. g < 64" using sextets_bound by blast
  have "btoa (String_fromCharCode array)
      = map (\<lambda>g. base64_alphabet ! g) ?gs
        @ replicate ((3 - length array mod 3) mod 3) CHR ''=''"
    by (simp only: btoa_def bits_of_fromCharCode length_fromCharCode)
  then have "replace_all CHR ''/'' CHR ''_''
       (replace_all CHR ''+'' CHR ''-'' (btoa (String_fromCharCode array)))
      = map (\<lambda>g. base64url_alphabet ! g) ?gs
        @ replicate ((3 - length array mod 3) mod 3) CHR ''=''"
    using small by (simp add: replace_all_append replace_all_padding replace_data)
  then have "base64URLEncode array
      = strip_trailing CHR ''=''
          (map (\<lambda>g. base64url_alphabet ! g) ?gs
           @ replicate ((3 - length array mod 3) mod 3) CHR ''='')"
    by (simp only: base64URLEncode_def)
  also have "\<dots> = map (\<lambda>g. base64url_alphabet ! g) ?gs"
    by (rule strip_trailing_padding [OF url_data_no_padding_char [OF small]])
  finally show ?thesis by (simp only: base64url_no_padding_def)
qed

lemma length_base64url_no_padding:
  "length (base64url_no_padding bytes) = (8 * length bytes + 5) div 6"
  by (simp add: base64url_no_padding_def length_sextets length_bits_of_bytes)

lemma base64url_no_padding_chars:
  "set (base64url_no_padding bytes) \<subseteq> set base64url_alphabet"
proof
  fix c assume "c \<in> set (base64url_no_padding bytes)"
  then obtain g where "g \<in> set (sextets (concat (map bits_of_byte bytes)))"
    "c = base64url_alphabet ! g"
    by (auto simp: base64url_no_padding_def)
  then show "c \<in> set base64url_alphabet"
    using sextets_bound [of g] by (simp add: length_alphabets)
qed

lemma length_getRandomValues: "length (fst (getRandomValues array rng)) = length array"
  by (simp add: getRandomValues_def)

text \<open>
  C8. Whatever bytes the random generator gives, the code verifier is the base64url
  encoding, without padding, of the 32 bytes drawn; it is 43 characters long, which lies
  between 43 and 128, and every character is a letter, a digit, \<^verbatim>\<open>-\<close> or \<^verbatim>\<open>_\<close>.
\<close>

theorem generateCodeVerifier_length:
  "fst (generateCodeVerifier rng) = base64url_no_padding (map rng [0 ..< 32]) \<and>
   length (fst (generateCodeVerifier rng)) = 43 \<and>
   43 \<le> length (fst (generateCodeVerifier rng)) \<and>
   length (fst (generateCodeVerifier rng)) \<le> 128 \<and>
   set (fst (generateCodeVerifier rng)) \<subseteq> set base64url_alphabet"
proof -
  have v: "fst (generateCodeVerifier rng) = base64url_no_padding (map rng [0 ..< 32])"
    by (simp add: generateCodeVerifier_def getRandomValues_def base64URLEncode_eq)
  have "length (base64url_no_padding (map rng [0 ..< 32])) = 43"
    by (simp add: length_base64url_no_padding)
  then show ?thesis
    using v base64url_no_padding_chars [of "map rng [0 ..< 32]"] by simp
qed

text \<open>
  C7. The code challenge is a function of the verifier (and of the platform's hash): it is
  the base64url encoding, as RFC 4648 defines it and with no padding character, of what
  \<^verbatim>\<open>crypto.subtle.digest("SHA-256", ...)\<close> gives for the UTF-8 bytes of the verifier.
\<close>

theorem generateCodeChallenge_is_base64url_sha256:
  "generateCodeChallenge digest v
     = base64url_no_padding (digest ''SHA-256'' (TextEncoder_encode v)) \<and>
   CHR ''='' \<notin> set (generateCodeChallenge digest v) \<and>
   set (generateCodeChallenge digest v) \<subseteq> set base64url_alphabet \<and>
   length (generateCodeChallenge digest v)
     = (8 * length (digest ''SHA-256'' (TextEncoder_encode v)) + 5) div 6"
proof -
  have c: "generateCodeChallenge digest v
      = base64url_no_padding (digest ''SHA-256'' (TextEncoder_encode v))"
    by (simp add: generateCodeChallenge_def base64URLEncode_eq)
  have "set (base64url_no_padding (digest ''SHA-256'' (TextEncoder_encode v)))
      \<subseteq> set base64url_alphabet"
    by (rule base64url_no_padding_chars)
  then show ?thesis
    using c url_alphabet_no_padding_char
    by (auto simp: length_base64url_no_padding)
qed

section \<open>The protocol client\<close>

subsection \<open>The form parser reads back what \<^verbatim>\<open>URLSearchParams.toString\<close> wrote\<close>

lemma hex_char_cases:
  assumes "(d :: nat) < 16"
  shows "d = 0 \<or> d = 1 \<or> d = 2 \<or> d = 3 \<or> d = 4 \<or> d = 5 \<or> d = 6 \<or> d = 7 \<or> d = 8 \<or>
         d = 9 \<or> d = 10 \<or> d = 11 \<or> d = 12 \<or> d = 13 \<or> d = 14 \<or> d = 15"
  using assms by arith

lemma hex_value_hex_char: "d < 16 \<Longrightarrow> hex_value (hex_char d) = Some d"
  using hex_char_cases [of d] by (auto simp: hex_char_def hex_value_def)

lemma hex_char_plain:
  "d < 16 \<Longrightarrow> hex_char d \<noteq> CHR ''&'' \<and> hex_char d \<noteq> CHR ''='' \<and>
     hex_char d \<noteq> CHR ''+'' \<and> hex_char d \<noteq> CHR ''%''"
  using hex_char_cases [of d] by (auto simp: hex_char_def)

lemma byte_small: "unat (b :: byte) < 256"
  using unsigned_less [of b, where ?'a = nat] by simp

lemma safe_char_plain:
  assumes "is_form_safe n"
  shows "char_of n \<noteq> CHR ''&'' \<and> char_of n \<noteq> CHR ''='' \<and> char_of n \<noteq> CHR ''+'' \<and>
         char_of n \<noteq> CHR ''%''"
proof -
  have n: "(of_char (char_of n) :: nat) = n"
    using assms by (auto simp: is_form_safe_def)
  have "char_of n \<noteq> c" if "(of_char c :: nat) \<noteq> n" for c
    using that n by auto
  moreover have "n \<noteq> 38" "n \<noteq> 61" "n \<noteq> 43" "n \<noteq> 37"
    using assms by (auto simp: is_form_safe_def)
  ultimately show ?thesis by simp
qed

lemma form_encode_byte_plain:
  "c \<in> set (form_encode_byte b) \<Longrightarrow> c \<noteq> CHR ''&'' \<and> c \<noteq> CHR ''=''"
proof -
  assume c: "c \<in> set (form_encode_byte b)"
  have "unat b div 16 < 16" "unat b mod 16 < 16" using byte_small [of b] by simp_all
  then show ?thesis
    using c hex_char_plain [of "unat b div 16"] hex_char_plain [of "unat b mod 16"]
      safe_char_plain [of "unat b"]
    by (auto simp: form_encode_byte_def Let_def split: if_splits)
qed

lemma form_encode_plain: "CHR ''&'' \<notin> set (form_encode s) \<and> CHR ''='' \<notin> set (form_encode s)"
  using form_encode_byte_plain by (fastforce simp: form_encode_def)


lemma split_on_none: "c \<notin> set x \<Longrightarrow> split_on c x = [x]"
  by (induction x) auto

lemma split_on_first: "c \<notin> set x \<Longrightarrow> split_on c (x @ c # rest) = x # split_on c rest"
  by (induction x) auto

lemma split_on_join:
  "xs \<noteq> [] \<Longrightarrow> \<forall>x \<in> set xs. c \<notin> set x \<Longrightarrow> split_on c (join [c] xs) = xs"
proof (induction "[c]" xs rule: join.induct)
  case 1
  then show ?case by simp
next
  case (2 x)
  then show ?case by (simp add: split_on_none)
next
  case (3 x y ys)
  then show ?case by (simp add: split_on_first)
qed

lemma percent_decode_byte:
  "percent_decode (map (\<lambda>c. if c = CHR ''+'' then CHR '' '' else c) (form_encode_byte b) @ rest)
     = b # percent_decode rest"
proof -
  let ?n = "unat b"
  have hi: "?n div 16 < 16" and lo: "?n mod 16 < 16" using byte_small [of b] by simp_all
  consider (safe) "is_form_safe ?n" | (space) "\<not> is_form_safe ?n" "?n = 32"
    | (other) "\<not> is_form_safe ?n" "?n \<noteq> 32"
    by blast
  then show ?thesis
  proof cases
    case safe
    then show ?thesis
      using safe_char_plain [of ?n]
      by (simp add: form_encode_byte_def byte_of_char_of)
  next
    case space
    then have "(of_nat (unat b) :: byte) = of_nat 32" by simp
    then have "b = 32" by simp
    with space show ?thesis by (simp add: form_encode_byte_def)
  next
    case other
    have "(of_nat (16 * (?n div 16) + ?n mod 16) :: byte) = b" by simp
    with other show ?thesis
      using hex_char_plain [OF hi] hex_char_plain [OF lo]
      by (simp add: form_encode_byte_def Let_def hex_value_hex_char [OF hi]
          hex_value_hex_char [OF lo])
  qed
qed

lemma percent_decode_bytes:
  "percent_decode
     (map (\<lambda>c. if c = CHR ''+'' then CHR '' '' else c) (concat (map form_encode_byte bs)))
     = bs"
proof (induction bs)
  case Nil
  show ?case by simp
next
  case (Cons b bs)
  then show ?case using percent_decode_byte [of b] by simp
qed

lemma form_decode_encode: "form_decode (form_encode s) = TextEncoder_encode s"
  by (simp add: form_decode_def form_encode_def percent_decode_bytes)

lemma pair_pieces:
  "takeWhile (\<lambda>c. c \<noteq> CHR ''='') (form_encode k @ CHR ''='' # form_encode v) = form_encode k"
  "drop (Suc 0) (dropWhile (\<lambda>c. c \<noteq> CHR ''='') (form_encode k @ CHR ''='' # form_encode v))
     = form_encode v"
  using form_encode_plain [of k]
  by (simp_all add: takeWhile_append dropWhile_append)

lemma form_parse_toString:
  "form_parse (URLSearchParams_toString params) = utf8_pairs params"
proof (cases "params = []")
  case True
  then show ?thesis
    by (simp add: form_parse_def URLSearchParams_toString_def utf8_pairs_def)
next
  case False
  let ?pieces = "map (\<lambda>(name, value). form_encode name @ ''='' @ form_encode value) params"
  have clean: "\<forall>x \<in> set ?pieces. CHR ''&'' \<notin> set x"
    using form_encode_plain by auto
  have nonempty: "\<forall>x \<in> set ?pieces. x \<noteq> []" by auto
  have "split_on CHR ''&'' (join ''&'' ?pieces) = ?pieces"
    using False clean by (intro split_on_join) simp_all
  moreover have "filter (\<lambda>piece. piece \<noteq> []) ?pieces = ?pieces"
    using nonempty by (simp add: filter_id_conv)
  ultimately show ?thesis
    by (simp add: form_parse_def URLSearchParams_toString_def utf8_pairs_def pair_pieces
        form_decode_encode comp_def case_prod_unfold)
qed

subsection \<open>\<^verbatim>\<open>getAuthorizationUrl\<close>\<close>

text \<open>
  C6. The authorization URL is the server URL, the path of the authorize method, a
  question mark and a query string; read by the form parser, the query string holds
  these seven parameters and no other, in this order: \<^verbatim>\<open>client_id\<close>, \<^verbatim>\<open>redirect_uri\<close>,
  \<^verbatim>\<open>response_type=code\<close>, \<^verbatim>\<open>scope\<close>, \<^verbatim>\<open>code_challenge\<close>, \<^verbatim>\<open>code_challenge_method=S256\<close>
  and \<^verbatim>\<open>state\<close>. The scope is the scopes joined by spaces, \<^verbatim>\<open>all openid\<close> when no
  scopes are given. The challenge in the URL is the challenge of the code verifier that
  is returned, and the state in the URL is the state that is returned. The function is
  given no \<^verbatim>\<open>fetch\<close>: it computes the URL from its arguments, the hash and the random
  bytes.
\<close>

theorem getAuthorizationUrl_query:
  "auth_url (getAuthorizationUrl digest rng serverUrl clientId redirectUri scopes)
     = serverUrl @ ''/api/method/frappe.integrations.oauth2.authorize?''
       @ URLSearchParams_toString
           (authorization_params clientId redirectUri
              (case scopes of None \<Rightarrow> [''all'', ''openid''] | Some xs \<Rightarrow> xs)
              (generateCodeChallenge digest
                 (codeVerifier (getAuthorizationUrl digest rng serverUrl clientId redirectUri scopes)))
              (state (getAuthorizationUrl digest rng serverUrl clientId redirectUri scopes))) \<and>
   form_parse
     (URLSearchParams_toString
        (authorization_params clientId redirectUri
           (case scopes of None \<Rightarrow> [''all'', ''openid''] | Some xs \<Rightarrow> xs)
           (generateCodeChallenge digest
              (codeVerifier (getAuthorizationUrl digest rng serverUrl clientId redirectUri scopes)))
           (state (getAuthorizationUrl digest rng serverUrl clientId redirectUri scopes))))
     = utf8_pairs
         [(''client_id'', clientId),
          (''redirect_uri'', redirectUri),
          (''response_type'', ''code''),
          (''scope'', case scopes of None \<Rightarrow> ''all openid'' | Some xs \<Rightarrow> join '' '' xs),
          (''code_challenge'',
             generateCodeChallenge digest
               (codeVerifier (getAuthorizationUrl digest rng serverUrl clientId redirectUri scopes))),
          (''code_challenge_method'', ''S256''),
          (''state'', state (getAuthorizationUrl digest rng serverUrl clientId redirectUri scopes))] \<and>
   codeVerifier (getAuthorizationUrl digest rng serverUrl clientId redirectUri scopes)
     = fst (generateCodeVerifier rng) \<and>
   state (getAuthorizationUrl digest rng serverUrl clientId redirectUri scopes)
     = fst (generateState (snd (generateCodeVerifier rng)))"
proof -
  let ?r = "getAuthorizationUrl digest rng serverUrl clientId redirectUri scopes"
  have v: "codeVerifier ?r = fst (generateCodeVerifier rng)"
    by (simp add: getAuthorizationUrl_def Let_def case_prod_unfold)
  have s: "state ?r = fst (generateState (snd (generateCodeVerifier rng)))"
    by (simp add: getAuthorizationUrl_def Let_def case_prod_unfold)
  have u: "auth_url ?r
      = serverUrl @ ''/api/method/frappe.integrations.oauth2.authorize?''
        @ URLSearchParams_toString
            (authorization_params clientId redirectUri
               (case scopes of None \<Rightarrow> [''all'', ''openid''] | Some xs \<Rightarrow> xs)
               (generateCodeChallenge digest (fst (generateCodeVerifier rng)))
               (fst (generateState (snd (generateCodeVerifier rng)))))"
    by (simp add: getAuthorizationUrl_def Let_def case_prod_unfold)
  have j: "join '' '' (case scopes of None \<Rightarrow> [''all'', ''openid''] | Some xs \<Rightarrow> xs)
      = (case scopes of None \<Rightarrow> ''all openid'' | Some xs \<Rightarrow> join '' '' xs)"
    by (cases scopes) simp_all
  show ?thesis
    unfolding form_parse_toString v s
    using u j by (simp add: authorization_params_def)
qed

subsection \<open>\<^verbatim>\<open>revokeToken\<close>\<close>

text \<open>
  C5. Whatever response \<^verbatim>\<open>fetch\<close> gives to the revocation request, of whatever status,
  \<open>revokeToken\<close> returns normally; a status outside 200 to 299 only makes it write a
  warning. The request carries an \<^verbatim>\<open>Authorization\<close> header, \<^verbatim>\<open>Basic\<close> and the base 64 of
  \<^verbatim>\<open>clientId:clientSecret\<close>, when the client secret is a non-empty string, and no such
  header when the secret is left out or empty.
\<close>

theorem revokeToken_best_effort:
  assumes "fetch (revoke_request serverUrl token clientId clientSecret) = Inr response"
  shows "revokeToken fetch serverUrl token clientId clientSecret
           = Inr (if ok response then []
                  else [''Token revocation failed, but continuing with logout'']) \<and>
         (\<forall>secret. clientSecret = Some secret \<and> secret \<noteq> [] \<longrightarrow>
            map_of (headers (revoke_request serverUrl token clientId clientSecret))
              ''Authorization''
              = Some (''Basic '' @ btoa (clientId @ '':'' @ secret))) \<and>
         (\<not> truthy_string clientSecret \<longrightarrow>
            map_of (headers (revoke_request serverUrl token clientId clientSecret))
              ''Authorization'' = None)"
proof -
  have "revokeToken fetch serverUrl token clientId clientSecret
      = Inr (if ok response then []
             else [''Token revocation failed, but continuing with logout''])"
    using assms by (auto simp: revokeToken_def and_then_def ok_def)
  then show ?thesis
    by (auto simp: revoke_request_def truthy_string_def split: option.splits)
qed

theorem revokeToken_best_effort_witness:
  "unavailable_fetch (revoke_request ''https://emr.example.com'' ''access-1'' ''client-1''
      (Some ''secret-1'')) = Inr \<lparr>status = 503, json = Inl SyntaxError\<rparr> \<and>
   revokeToken unavailable_fetch ''https://emr.example.com'' ''access-1'' ''client-1''
      (Some ''secret-1'')
     = Inr [''Token revocation failed, but continuing with logout''] \<and>
   map_of (headers (revoke_request ''https://emr.example.com'' ''access-1'' ''client-1''
      (Some ''secret-1''))) ''Authorization''
     = Some (''Basic '' @ btoa ''client-1:secret-1'') \<and>
   \<not> truthy_string (Some []) \<and>
   revokeToken granting_fetch ''https://emr.example.com'' ''access-1'' ''client-1'' (Some [])
     = Inr [] \<and>
   map_of (headers (revoke_request ''https://emr.example.com'' ''access-1'' ''client-1''
      (Some []))) ''Authorization'' = None"
  using revokeToken_best_effort
      [of unavailable_fetch "''https://emr.example.com''" "''access-1''" "''client-1''"
        "Some ''secret-1''" "\<lparr>status = 503, json = Inl SyntaxError\<rparr>"]
    revokeToken_best_effort
      [of granting_fetch "''https://emr.example.com''" "''access-1''" "''client-1''"
        "Some []" "\<lparr>status = 200, json = Inr token_response\<rparr>"]
  by (simp add: unavailable_fetch_def granting_fetch_def ok_def truthy_string_def)

subsection \<open>\<^verbatim>\<open>exchangeCodeForToken\<close>\<close>


text \<open>
  When \<^verbatim>\<open>fetch\<close> itself rejects (the network is down) there is no response, and both
  functions pass the rejection on to their caller.
\<close>

lemma fetch_rejection_passes_through:
  "fetch (revoke_request serverUrl token clientId secret) = Inl e \<Longrightarrow>
   revokeToken fetch serverUrl token clientId secret = Inl e"
  "fetch (token_request serverUrl clientId clientSecret code verifier redirectUri) = Inl e \<Longrightarrow>
   exchangeCodeForToken fetch serverUrl clientId clientSecret code verifier redirectUri = Inl e"
  by (simp_all add: revokeToken_def exchangeCodeForToken_def and_then_def)








end
